theory Spec2Isabelle
  imports Complex_Main
begin

section \<open>Speech analysis app: the topic-modelling core of \<open>app.py\<close>\<close>

text \<open>
  The embedding follows \<open>src/app.py\<close>: \<open>preprocess_text\<close> (lines 24-54),
  \<open>train_topic_model\<close> (58-86), \<open>get_topic_words\<close> (88-93) and the topic
  identification block of the page script (183-197).

  The source calls spaCy, gensim, NLTK, scikit-learn and NumPy. Those libraries are not
  part of the repository; each call is a field of the record \<open>libs\<close> below, so that
  a theorem holds for whatever the libraries compute, under the hypotheses it states
  about them. A small concrete instance, \<open>demo_libs\<close>, runs the model on inputs.

  A text is a \<open>string\<close> read as ASCII characters: \<open>str.lower\<close> and the regular
  expression class \<open>\d\<close> are modelled on the ASCII range, and a theorem about them
  states that its input is ASCII (\<open>ascii_input\<close>). Floating-point numbers are
  modelled by the reals they denote (the code only compares and sorts them).
\<close>

subsection \<open>External libraries\<close>

type_synonym vocabulary = "(string \<times> nat) list"
  \<comment> \<open>\<open>vectorizer.vocabulary_\<close>: term to column index, in insertion order\<close>

type_synonym matrix = "nat list list"
  \<comment> \<open>a document-term matrix: one row of counts per document\<close>

record lda_params =
  n_components :: nat
  random_state :: "nat option"
  max_iter :: nat

record lda_model =
  components :: "real list list"
    \<comment> \<open>\<open>components_\<close>: one row of term weights per topic\<close>

record vectorizer =
  max_df :: real
  min_df :: nat
  stop_words :: string
  ngram_range :: "nat \<times> nat"
  vocabulary :: vocabulary

record libs =
  nlp :: "string \<Rightarrow> (string \<times> string) list"
    \<comment> \<open>spaCy pipeline \<open>en_core_web_sm\<close>: the tokens of a text as (\<open>token.text\<close>, \<open>token.ent_type_\<close>)\<close>
  simple_preprocess :: "string \<Rightarrow> bool \<Rightarrow> string list"
    \<comment> \<open>\<open>gensim.utils.simple_preprocess(text, deacc)\<close>: the text and the flag \<open>deacc\<close>\<close>
  STOPWORDS :: "string list"
    \<comment> \<open>\<open>gensim.parsing.preprocessing.STOPWORDS\<close>, read as a set\<close>
  lemmatize :: "string \<Rightarrow> string"
    \<comment> \<open>\<open>WordNetLemmatizer().lemmatize\<close>\<close>
  fit_transform :: "string list \<Rightarrow> string + (vocabulary \<times> matrix)"
    \<comment> \<open>\<open>CountVectorizer(max_df=0.95, min_df=2, stop_words='english', ngram_range=(1, 2)).fit_transform\<close>;
        \<open>Inl msg\<close> is a raised \<open>ValueError(msg)\<close>\<close>
  cv_transform :: "vectorizer \<Rightarrow> string list \<Rightarrow> matrix"
    \<comment> \<open>\<open>vectorizer.transform\<close>\<close>
  lda_fit :: "lda_params \<Rightarrow> nat \<Rightarrow> matrix \<Rightarrow> lda_model"
    \<comment> \<open>\<open>LatentDirichletAllocation(...).fit\<close>; the second argument is the state of the
        process-wide random generator when the call is made\<close>
  lda_transform :: "lda_model \<Rightarrow> matrix \<Rightarrow> real list list"
    \<comment> \<open>\<open>lda.transform\<close>: one row of topic strengths per document\<close>
  argsort :: "real list \<Rightarrow> nat list"
    \<comment> \<open>\<open>numpy.ndarray.argsort()\<close>\<close>

datatype py_error = IndexError

text \<open>
  What the page shows. \<open>Write\<close>, \<open>Error\<close> and \<open>Warning\<close> are \<open>st.write\<close>,
  \<open>st.error\<close> and \<open>st.warning\<close> with the message rendered; \<open>WriteKeys\<close> is a \<open>st.write\<close> whose message ends with a list of
  strings, \<open>WriteTopic\<close> is the bullet line of a topic: its label and the strength that
  the page prints with two decimals.
\<close>

datatype ui_event =
    Write string
  | WriteKeys string "string list"
  | WriteTopic string real
  | Error string
  | Warning string

subsection \<open>Strings\<close>

text \<open>\<open>sep.join(xs)\<close>\<close>

fun join :: "string \<Rightarrow> string list \<Rightarrow> string" where
  "join sep [] = []"
| "join sep [x] = x"
| "join sep (x # y # ys) = x @ sep @ join sep (y # ys)"

definition upper_chars :: string where
  "upper_chars = ''ABCDEFGHIJKLMNOPQRSTUVWXYZ''"

definition lower_chars :: string where
  "lower_chars = ''abcdefghijklmnopqrstuvwxyz''"

definition lower_char :: "char \<Rightarrow> char" where
  "lower_char c = (case map_of (zip upper_chars lower_chars) c of Some l \<Rightarrow> l | None \<Rightarrow> c)"

text \<open>\<open>text.lower()\<close>\<close>

definition lower :: "string \<Rightarrow> string" where
  "lower text = map lower_char text"

definition is_digit :: "char \<Rightarrow> bool" where
  "is_digit c = (c \<in> set ''0123456789'')"

text \<open>A match of \<open>\(\d{2}:\d{2}\)\<close> at the start of the text.\<close>

fun timestamp_match :: "string \<Rightarrow> bool" where
  "timestamp_match (a # b # c # d # e # f # g # rest) =
     (a = CHR ''('' \<and> is_digit b \<and> is_digit c \<and> d = CHR '':'' \<and> is_digit e \<and> is_digit f
      \<and> g = CHR '')'')"
| "timestamp_match _ = False"

text \<open>\<open>re.sub(r'\(\d{2}:\d{2}\)', '', text)\<close>: leftmost matches, left to right, none overlapping.\<close>

fun re_sub_timestamp :: "string \<Rightarrow> string" where
  "re_sub_timestamp [] = []"
| "re_sub_timestamp (c # cs) =
     (if timestamp_match (c # cs) then re_sub_timestamp (drop 6 cs)
      else c # re_sub_timestamp cs)"

subsection \<open>\<open>preprocess_text\<close>\<close>

datatype text_input = Text string | TextList "string list"

definition extra_stopwords :: "string list" where
  "extra_stopwords =
     [''look'', ''lot'', ''going'', ''said'', ''know'', ''thing'', ''well'',
      ''actually'', ''thank'', ''us'', ''think'', ''just'', ''people'', ''country'',
      ''ve'', ''don'', ''ll'']"

definition custom_stopwords :: "libs \<Rightarrow> string set" where
  "custom_stopwords L = set (STOPWORDS L) \<union> set extra_stopwords"

definition preprocess_text :: "libs \<Rightarrow> text_input \<Rightarrow> string" where
  "preprocess_text L inp =
     (let text = (case inp of TextList xs \<Rightarrow> join '' '' xs | Text s \<Rightarrow> s);
          text = re_sub_timestamp text;
          text = lower text;
          doc = nlp L text;
          text = join '' '' [fst token. token \<leftarrow> doc, snd token \<notin> set [''PERSON'', ''GPE'']];
          tokens = simple_preprocess L text True;
          tokens = [lemmatize L token. token \<leftarrow> tokens, token \<notin> custom_stopwords L];
          processed_text = join '' '' tokens
      in processed_text)"

subsection \<open>\<open>train_topic_model\<close>\<close>

definition digit_chars :: string where
  "digit_chars = ''0123456789''"

text \<open>\<open>str(n)\<close> for a natural number.\<close>

fun show_nat :: "nat \<Rightarrow> string" where
  "show_nat n =
     (if n < 10 then [digit_chars ! n] else show_nat (n div 10) @ [digit_chars ! (n mod 10)])"

declare show_nat.simps [simp del]

definition n_topics_default :: nat where
  "n_topics_default = 25"

definition CountVectorizer :: vectorizer where
  "CountVectorizer =
     \<lparr>max_df = 95 / 100, min_df = 2, stop_words = ''english'', ngram_range = (1, 2),
      vocabulary = []\<rparr>"

definition LatentDirichletAllocation :: "nat \<Rightarrow> lda_params" where
  "LatentDirichletAllocation n_topics =
     \<lparr>n_components = n_topics, random_state = Some 42, max_iter = 10\<rparr>"

type_synonym train_result = "ui_event list \<times> (py_error + (vectorizer option \<times> lda_model option))"

text \<open>Lines 69-86: from the \<open>try\<close> to the \<open>return\<close>, given the preprocessed documents.\<close>

definition vectorize_and_fit ::
  "libs \<Rightarrow> nat \<Rightarrow> string list \<Rightarrow> nat \<Rightarrow> bool \<Rightarrow> train_result" where
  "vectorize_and_fit L rng preprocessed_docs n_topics debug =
     (case fit_transform L preprocessed_docs of
        Inl e \<Rightarrow> ([Error (''Error in vectorization: '' @ e)], Inr (None, None))
      | Inr (vocab, doc_term_matrix) \<Rightarrow>
          if length vocab = 0 then
            ([Error ''Error: Empty vocabulary. Please check your preprocessing steps.''],
             Inr (None, None))
          else
            (let ui = (if debug then
                         [Write (''Vocabulary size: '' @ show_nat (length vocab)),
                          WriteKeys ''Top 10 words in vocabulary: '' (take 10 (map fst vocab))]
                       else []);
                 vectorizer = CountVectorizer\<lparr>vocabulary := vocab\<rparr>;
                 lda = lda_fit L (LatentDirichletAllocation n_topics) rng doc_term_matrix
             in (ui, Inr (Some vectorizer, Some lda))))"

text \<open>
  \<open>train_topic_model(df, n_topics=25, debug=False)\<close>. \<open>df\<close> is the column
  \<open>speech_in_text\<close>, one string per row; \<open>rng\<close> is the state of the process-wide
  random generator. \<open>.iloc[0]\<close> raises \<open>IndexError\<close> on a column with no row.
\<close>

definition train_topic_model ::
  "libs \<Rightarrow> nat \<Rightarrow> string list \<Rightarrow> nat \<Rightarrow> bool \<Rightarrow> train_result" where
  "train_topic_model L rng df n_topics debug =
     (let ui1 = (if debug then [Write (''Number of documents: '' @ show_nat (length df))] else [])
      in if debug \<and> df = [] then (ui1, Inl IndexError)
         else
           (let ui2 = ui1 @ (if debug then
                               [Write (''Sample raw text (first 100 chars): '' @ take 100 (hd df))]
                             else []);
                preprocessed_docs = map (\<lambda>x. preprocess_text L (Text x)) df;
                ui3 = ui2 @ (if debug then
                               [Write (''Sample preprocessed text (first 100 chars): ''
                                       @ take 100 (hd preprocessed_docs))]
                             else []);
                (ui4, r) = vectorize_and_fit L rng preprocessed_docs n_topics debug
            in (ui3 @ ui4, r)))"

subsection \<open>\<open>get_topic_words\<close>\<close>

text \<open>The slice \<open>xs[:-n - 1:-1]\<close> of a sequence.\<close>

definition slice_top :: "int \<Rightarrow> 'a list \<Rightarrow> 'a list" where
  "slice_top n xs = (if 0 \<le> n then take (nat n) (rev xs) else rev (drop (nat (- n)) xs))"

text \<open>\<open>[feature_names[i] for i in idx]\<close>\<close>

fun index_all :: "'a list \<Rightarrow> nat list \<Rightarrow> py_error + 'a list" where
  "index_all feature_names [] = Inr []"
| "index_all feature_names (i # idx) =
     (if i < length feature_names then
        (case index_all feature_names idx of
           Inl e \<Rightarrow> Inl e
         | Inr ws \<Rightarrow> Inr (feature_names ! i # ws))
      else Inl IndexError)"

fun topic_words_loop :: "libs \<Rightarrow> real list list \<Rightarrow> string list \<Rightarrow> int \<Rightarrow> py_error + string list list" where
  "topic_words_loop L [] feature_names n_top_words = Inr []"
| "topic_words_loop L (topic # rest) feature_names n_top_words =
     (case index_all feature_names (slice_top n_top_words (argsort L topic)) of
        Inl e \<Rightarrow> Inl e
      | Inr top_words \<Rightarrow>
          (case topic_words_loop L rest feature_names n_top_words of
             Inl e \<Rightarrow> Inl e
           | Inr topic_words \<Rightarrow> Inr (top_words # topic_words)))"

definition n_top_words_default :: int where
  "n_top_words_default = 10"

definition get_topic_words :: "libs \<Rightarrow> lda_model \<Rightarrow> string list \<Rightarrow> int \<Rightarrow> py_error + string list list" where
  "get_topic_words L model feature_names n_top_words =
     topic_words_loop L (components model) feature_names n_top_words"

subsection \<open>Topic identification (lines 183-197)\<close>

definition relevance_threshold :: real where
  "relevance_threshold = 1 / 10"

text \<open>
  Lines 190-191. \<open>list.sort(key=..., reverse=True)\<close> is stable: entries of equal strength
  keep their order, as a stable ascending sort on the negated strength does.
\<close>

definition relevant_topics :: "real \<Rightarrow> real list \<Rightarrow> (nat \<times> real) list" where
  "relevant_topics threshold doc_topics =
     sort_key (\<lambda>x. - snd x)
       [(i, strength). (i, strength) \<leftarrow> enumerate 0 doc_topics, strength > threshold]"

text \<open>The loop of lines 194-195 over the entries it is given.\<close>

fun write_topics :: "string list list \<Rightarrow> (nat \<times> real) list \<Rightarrow> ui_event list \<times> py_error option" where
  "write_topics topic_words [] = ([], None)"
| "write_topics topic_words ((topic_idx, strength) # rest) =
     (if topic_idx < length topic_words then
        (let (ui, r) = write_topics topic_words rest
         in (WriteTopic (join '', '' (take 5 (topic_words ! topic_idx))) strength # ui, r))
      else ([], Some IndexError))"

text \<open>Lines 189-197, with the threshold and the number of topics shown as arguments.\<close>

definition show_topics ::
  "real \<Rightarrow> nat \<Rightarrow> string list list \<Rightarrow> real list \<Rightarrow> ui_event list \<times> py_error option" where
  "show_topics threshold top_k topic_words doc_topics =
     (let relevant = relevant_topics threshold doc_topics
      in if relevant \<noteq> [] then write_topics topic_words (take top_k relevant)
         else ([Write ''No strong topics identified in the selected transcript.''], None))"

text \<open>Lines 186-197, given the preprocessed text of the selected transcript.\<close>

definition score_document ::
  "libs \<Rightarrow> vectorizer \<Rightarrow> lda_model \<Rightarrow> string list list \<Rightarrow> string \<Rightarrow> ui_event list \<times> py_error option" where
  "score_document L vectorizer lda topic_words preprocessed_text_topic =
     (let doc_term_matrix = cv_transform L vectorizer [preprocessed_text_topic]
      in case lda_transform L lda doc_term_matrix of
           [] \<Rightarrow> ([], Some IndexError)
         | doc_topics # _ \<Rightarrow> show_topics relevance_threshold 3 topic_words doc_topics)"

text \<open>
  Lines 183-197, the block as it stands. The page runs it inside the guard of line 140;
  \<open>page_topic_identification\<close> below adds that guard.
\<close>

definition topic_identification ::
  "libs \<Rightarrow> vectorizer option \<Rightarrow> lda_model option \<Rightarrow> string list list \<Rightarrow> string
   \<Rightarrow> ui_event list \<times> py_error option" where
  "topic_identification L vectorizer lda topic_words text =
     (case (vectorizer, lda) of
        (Some v, Some l) \<Rightarrow>
          (let (ui, r) = score_document L v l topic_words (preprocess_text L (Text text))
           in (Write ''Key Topics for the Selected Transcript:'' # ui, r))
      | _ \<Rightarrow> ([], None))"

text \<open>
  Lines 140 and 221-222 around the block: the page analyses the selected transcript
  only when it is not empty (\<open>if text:\<close>), and shows a warning otherwise. Of the sections
  inside the guard this is topic identification, with the bundle as trained or loaded.
\<close>

definition page_topic_identification ::
  "libs \<Rightarrow> vectorizer option \<Rightarrow> lda_model option \<Rightarrow> string list list \<Rightarrow> string
   \<Rightarrow> ui_event list \<times> py_error option" where
  "page_topic_identification L vectorizer lda topic_words text =
     (if text \<noteq> [] then topic_identification L vectorizer lda topic_words text
      else ([Warning ''The selected transcript is empty.''], None))"

text \<open>
  Lines 184 and 187-197, given the document-term matrix of the selected transcript: what
  topic identification shows for it.
\<close>

definition topics_of_matrix ::
  "libs \<Rightarrow> lda_model \<Rightarrow> string list list \<Rightarrow> matrix \<Rightarrow> ui_event list \<times> py_error option" where
  "topics_of_matrix L lda topic_words doc_term_matrix =
     (case lda_transform L lda doc_term_matrix of
        [] \<Rightarrow> ([Write ''Key Topics for the Selected Transcript:''], Some IndexError)
      | doc_topics # rows \<Rightarrow>
          (Write ''Key Topics for the Selected Transcript:''
             # fst (show_topics relevance_threshold 3 topic_words doc_topics),
           snd (show_topics relevance_threshold 3 topic_words doc_topics)))"

subsection \<open>The vectorizer's \<open>transform\<close>\<close>

text \<open>
  \<open>CountVectorizer\<close> is scikit-learn's; \<open>app.py\<close> constructs it (line 63) and calls
  \<open>fit_transform\<close> (line 70) and \<open>transform\<close> (line 186). The definitions of this
  subsection follow section 4.2 of the specification instead.
\<close>

text \<open>Modelled from the spec: the tokens of a normalized document, which is a string of
  tokens joined by single spaces (section 4.1); \<open>words_acc\<close> carries the token being read.
  Missing from the source: scikit-learn's tokenizer.\<close>

fun words_acc :: "string \<Rightarrow> string \<Rightarrow> string list" where
  "words_acc w [] = (if w = [] then [] else [w])"
| "words_acc w (c # cs) =
     (if c = CHR '' '' then (if w = [] then [] else [w]) @ words_acc [] cs
      else words_acc (w @ [c]) cs)"

text \<open>Modelled from the spec: the tokens of a normalized document (see \<open>words_acc\<close>).
  Missing from the source: scikit-learn's tokenizer.\<close>

definition words :: "string \<Rightarrow> string list" where
  "words doc = words_acc [] doc"

text \<open>Modelled from the spec: "n-grams of order 1 and 2", a bigram being "a two-token
  contiguous sequence treated as a single vocabulary feature". Missing from the source:
  scikit-learn's n-gram construction.\<close>

definition ngrams :: "string list \<Rightarrow> string list" where
  "ngrams ws = ws @ map (\<lambda>(a, b). a @ '' '' @ b) (zip ws (tl ws))"

text \<open>Modelled from the spec: the terms of a document, "a standard English stopword filter"
  applied to its tokens before the n-grams are built. Missing from the source:
  scikit-learn's analyzer.\<close>

definition analyze :: "string list \<Rightarrow> string \<Rightarrow> string list" where
  "analyze stop doc = ngrams [w \<leftarrow> words doc. w \<notin> set stop]"

text \<open>Modelled from the spec: one row of the document-term matrix, "columns = vocabulary
  features, values = counts", built "using the frozen vocabulary"; a term that is no
  key of the vocabulary is counted in no column. Missing from the source: scikit-learn's
  counting.\<close>

definition count_row :: "vocabulary \<Rightarrow> string list \<Rightarrow> nat list" where
  "count_row vocab terms =
     map (\<lambda>j. length [t \<leftarrow> terms. map_of vocab t = Some j]) [0..<length vocab]"

text \<open>Modelled from the spec: \<open>transform\<close> of section 4.2, one row per document, returned
  with the vectorizer as it is after the call. Missing from the source:
  \<open>CountVectorizer.transform\<close>.\<close>

definition transform :: "string list \<Rightarrow> vectorizer \<Rightarrow> string list \<Rightarrow> vectorizer \<times> matrix" where
  "transform stop v docs = (v, map (\<lambda>doc. count_row (vocabulary v) (analyze stop doc)) docs)"

text \<open>Modelled from the spec: the number of documents a term appears in. Missing from
  the source: scikit-learn's document frequencies.\<close>

definition document_frequency :: "string list \<Rightarrow> string list \<Rightarrow> string \<Rightarrow> nat" where
  "document_frequency stop docs t = length [d \<leftarrow> docs. t \<in> set (analyze stop d)]"

text \<open>Modelled from the spec: \<open>fit\<close> of section 4.2. The vocabulary holds the terms of the
  documents, "n-grams of order 1 and 2" after the stopword filter, without the "terms
  appearing in more than 95% of documents" and the "terms appearing in fewer than 2
  documents" (the bounds \<open>max_df\<close> and \<open>min_df\<close> of the vectorizer), each with "a stable
  integer feature index", here its rank by first appearance. The matrix is the
  \<open>transform\<close> of the documents. Missing from the source: \<open>CountVectorizer.fit_transform\<close>.\<close>

definition fit :: "string list \<Rightarrow> vectorizer \<Rightarrow> string list \<Rightarrow> vectorizer \<times> matrix" where
  "fit stop v docs =
     (let terms = remdups (concat (map (analyze stop) docs));
          kept = [t \<leftarrow> terms.
                    min_df v \<le> document_frequency stop docs t
                    \<and> real (document_frequency stop docs t) \<le> max_df v * real (length docs)];
          fitted = v\<lparr>vocabulary := zip kept [0..<length kept]\<rparr>
      in (fitted, snd (transform stop fitted docs)))"

subsection \<open>A small instance of the libraries\<close>

text \<open>
  Stand-ins for the library calls on plain lower-case words, used to run the model on
  concrete inputs: a tagger that knows two names, a tokenizer that keeps the words of 2 to
  15 characters, a few entries of the stopword list and of the lemmatizer's dictionary
  (a word without an entry is its own lemma, as with WordNet), a vectorizer that keeps the
  words found in at least two documents, and a topic model of fixed strengths.
\<close>

definition demo_nlp :: "string \<Rightarrow> (string \<times> string) list" where
  "demo_nlp text =
     map (\<lambda>w. (w, if w = ''lincoln'' then ''PERSON'' else if w = ''france'' then ''GPE'' else []))
       (words text)"

definition demo_simple_preprocess :: "string \<Rightarrow> bool \<Rightarrow> string list" where
  "demo_simple_preprocess text deacc = [w \<leftarrow> words text. 2 \<le> length w \<and> length w \<le> 15]"

definition demo_lemmatize :: "string \<Rightarrow> string" where
  "demo_lemmatize w =
     (case map_of [(''things'', ''thing''), (''economies'', ''economy''), (''taxes'', ''tax'')] w of
        Some l \<Rightarrow> l
      | None \<Rightarrow> w)"

definition demo_fit_transform :: "string list \<Rightarrow> string + (vocabulary \<times> matrix)" where
  "demo_fit_transform docs =
     (let kept = [t \<leftarrow> remdups (concat (map words docs)).
                    2 \<le> length [d \<leftarrow> docs. t \<in> set (words d)]];
          vocab = zip kept [0..<length kept]
      in if kept = [] then
           Inl ''empty vocabulary; perhaps the documents only contain stop words''
         else Inr (vocab, map (\<lambda>d. count_row vocab (words d)) docs))"

definition demo_lda_fit :: "lda_params \<Rightarrow> nat \<Rightarrow> matrix \<Rightarrow> lda_model" where
  "demo_lda_fit p rng m =
     (let seed = (case random_state p of Some s \<Rightarrow> s | None \<Rightarrow> rng)
      in \<lparr>components =
            map (\<lambda>k. map (\<lambda>j. real (Suc ((seed + k + j) mod 7))) [0..<length (hd m)])
              [0..<n_components p]\<rparr>)"

definition demo_argsort :: "real list \<Rightarrow> nat list" where
  "demo_argsort xs = sort_key (\<lambda>i. xs ! i) [0..<length xs]"

definition demo_libs :: libs where
  "demo_libs =
     \<lparr>nlp = demo_nlp,
      simple_preprocess = demo_simple_preprocess,
      STOPWORDS = [''the'', ''is'', ''and'', ''of'', ''to''],
      lemmatize = demo_lemmatize,
      fit_transform = demo_fit_transform,
      cv_transform = (\<lambda>v docs. snd (transform [] v docs)),
      lda_fit = demo_lda_fit,
      lda_transform = (\<lambda>l m. map (\<lambda>row. [5 / 100, 1 / 2, 3 / 10, 1 / 10, 3 / 20]) m),
      argsort = demo_argsort\<rparr>"

subsection \<open>The normalizer as the specification words it\<close>

text \<open>
  Section 4.1 of the specification lists the steps of \<open>normalize\<close>. Each step is a
  definition here, written from that list and on its own terms: none of them uses
  \<open>join\<close>, \<open>lower\<close>, \<open>is_digit\<close>, \<open>re_sub_timestamp\<close> or \<open>extra_stopwords\<close>.
  \<open>normalize_spec\<close> chains the steps in the order given there, and is compared with
  \<open>preprocess_text\<close> below.
\<close>















subsection \<open>Intermediate values of \<open>preprocess_text\<close>\<close>

text \<open>The variable \<open>tokens\<close> after line 50 and after line 51.\<close>

definition simple_tokens :: "libs \<Rightarrow> text_input \<Rightarrow> string list" where
  "simple_tokens L inp =
     simple_preprocess L
       (join '' ''
          [fst token. token \<leftarrow> nlp L (lower (re_sub_timestamp
              (case inp of TextList xs \<Rightarrow> join '' '' xs | Text s \<Rightarrow> s))),
           snd token \<notin> set [''PERSON'', ''GPE'']])
       True"

definition lemma_tokens :: "libs \<Rightarrow> text_input \<Rightarrow> string list" where
  "lemma_tokens L inp =
     [lemmatize L token. token \<leftarrow> simple_tokens L inp, token \<notin> custom_stopwords L]"

text \<open>The bullet lines among what the page shows.\<close>

fun is_topic_line :: "ui_event \<Rightarrow> bool" where
  "is_topic_line (WriteTopic label strength) = True"
| "is_topic_line _ = False"

text \<open>
  What \<open>argsort\<close> returns for a vector: a permutation of its indices that lists the
  values in ascending order. The order of equal values is left open.
\<close>

definition is_argsort :: "nat list \<Rightarrow> real list \<Rightarrow> bool" where
  "is_argsort idx xs \<longleftrightarrow> sort idx = [0..<length xs] \<and> sorted (map ((!) xs) idx)"

text \<open>
  \<open>idx\<close> lists the \<open>n\<close> indices of highest weight in \<open>topic\<close> (all of them when there
  are fewer), without repetition, in descending order of weight.
\<close>

definition is_top_n :: "nat \<Rightarrow> real list \<Rightarrow> nat list \<Rightarrow> bool" where
  "is_top_n n topic idx \<longleftrightarrow>
     length idx = min n (length topic) \<and> distinct idx \<and> set idx \<subseteq> set [0..<length topic]
     \<and> sorted_wrt (\<lambda>i j. topic ! j \<le> topic ! i) idx
     \<and> (\<forall>i \<in> set idx. \<forall>j \<in> set [0..<length topic] - set idx. topic ! j \<le> topic ! i)"

text \<open>
  A fit that is given a \<open>random_state\<close> draws from a generator of its own, seeded with
  it, and does not read the process-wide one.
\<close>

definition seeded_fit_ignores_rng :: "libs \<Rightarrow> bool" where
  "seeded_fit_ignores_rng L \<longleftrightarrow>
     (\<forall>p m rng rng'. random_state p \<noteq> None \<longrightarrow> lda_fit L p rng m = lda_fit L p rng' m)"

text \<open>The error messages among what the page shows.\<close>

fun is_error :: "ui_event \<Rightarrow> bool" where
  "is_error (Error msg) = True"
| "is_error _ = False"

text \<open>
  Tokens made of the lower-case letters a to z only, which are no stopwords and their own
  lemmas.
\<close>

definition lower_letters :: "string \<Rightarrow> bool" where
  "lower_letters t = list_all (\<lambda>c. c \<in> set lower_chars) t"

definition settled_tokens :: "libs \<Rightarrow> string list \<Rightarrow> bool" where
  "settled_tokens L ts =
     list_all (\<lambda>t. lower_letters t \<and> t \<notin> custom_stopwords L \<and> lemmatize L t = t) ts"

text \<open>
  What the tagger and the tokenizer do with a text of words joined by single spaces: the
  tagger returns the words as its tokens and tags none of them as a person or a place,
  and the tokenizer returns the words.
\<close>

definition libs_read_back :: "libs \<Rightarrow> string list \<Rightarrow> bool" where
  "libs_read_back L ts \<longleftrightarrow>
     map fst (nlp L (join '' '' ts)) = ts
     \<and> list_all (\<lambda>tok. snd tok \<notin> set [''PERSON'', ''GPE'']) (nlp L (join '' '' ts))
     \<and> simple_preprocess L (join '' '' ts) True = ts"

text \<open>
  A vectorizer finds no term in documents that are all empty: when its fit of such a
  corpus returns at all, the vocabulary is empty.
\<close>

definition no_terms_in_empty_corpus :: "libs \<Rightarrow> bool" where
  "no_terms_in_empty_corpus L \<longleftrightarrow>
     (\<forall>docs vocab m. list_all (\<lambda>d. d = []) docs \<and> fit_transform L docs = Inr (vocab, m)
        \<longrightarrow> vocab = [])"

section \<open>Properties\<close>

subsection \<open>Normalization\<close>

lemma preprocess_text_tokens:
  "preprocess_text L inp = join '' '' (lemma_tokens L inp)"
  by (simp add: preprocess_text_def lemma_tokens_def simple_tokens_def Let_def)

lemmas demo_defs =
  demo_libs_def demo_nlp_def demo_simple_preprocess_def demo_lemmatize_def words_def
  custom_stopwords_def extra_stopwords_def lower_def lower_char_def upper_chars_def
  lower_chars_def simple_tokens_def lemma_tokens_def is_digit_def

lemma join_contains:
  "x \<in> set ts \<Longrightarrow> \<exists>pre post. join sep ts = pre @ x @ post"
proof (induction sep ts rule: join.induct)
  case (1 sep)
  then show ?case by simp
next
  case (2 sep y)
  then have "join sep [y] = [] @ x @ []" by simp
  then show ?case by blast
next
  case (3 sep y z zs)
  show ?case
  proof (cases "x = y")
    case True
    then have "join sep (y # z # zs) = [] @ x @ (sep @ join sep (z # zs))" by simp
    then show ?thesis by blast
  next
    case False
    with 3 obtain pre post where "join sep (z # zs) = pre @ x @ post" by auto
    then have "join sep (y # z # zs) = (y @ sep @ pre) @ x @ post" by simp
    then show ?thesis by blast
  qed
qed

text \<open>
  C10. The stopword test of line 51 reads the token as the tokenizer gave it, before it is
  lemmatized. So a token that is no stopword and whose lemma is one (the plural
  \<open>things\<close> of the extension word \<open>thing\<close>) survives the filter, and its lemma, a
  stopword, is one of the tokens joined into the result and a substring of it.
\<close>

theorem stopword_lemma_survives:
  assumes "t \<in> set (simple_tokens L inp)"
    and "t \<notin> custom_stopwords L"
    and "lemmatize L t \<in> custom_stopwords L"
  shows "lemmatize L t \<in> set (lemma_tokens L inp)
         \<and> preprocess_text L inp = join '' '' (lemma_tokens L inp)
         \<and> (\<exists>pre post. preprocess_text L inp = pre @ lemmatize L t @ post)"
proof -
  from assms(1,2) have mem: "lemmatize L t \<in> set (lemma_tokens L inp)"
    by (auto simp: lemma_tokens_def)
  with join_contains [OF mem, of "'' ''"] show ?thesis
    by (simp add: preprocess_text_tokens)
qed

theorem stopword_lemma_survives_witness:
  "''things'' \<in> set (simple_tokens demo_libs (Text ''some things''))
   \<and> ''things'' \<notin> custom_stopwords demo_libs
   \<and> lemmatize demo_libs ''things'' \<in> custom_stopwords demo_libs
   \<and> lemmatize demo_libs ''things'' \<in> set (lemma_tokens demo_libs (Text ''some things''))
   \<and> preprocess_text demo_libs (Text ''some things'') = ''some thing''"
  using stopword_lemma_survives [of "''things''" demo_libs "Text ''some things''"]
  by (simp add: preprocess_text_tokens demo_defs)






lemma lower_char_other:
  assumes "c \<notin> set upper_chars"
  shows "lower_char c = c"
proof -
  from assms have "map_of (zip upper_chars lower_chars) c = None"
    by (simp add: map_of_eq_None_iff upper_chars_def lower_chars_def)
  then show ?thesis by (simp add: lower_char_def)
qed









text \<open>
  C5. As stated the claim fails: \<open>things\<close> is normalized to \<open>thing\<close>, and \<open>thing\<close>,
  an extension stopword, to the empty string.
\<close>

theorem idempotence_counterexample:
  "\<not> (\<forall>L inp. preprocess_text L (Text (preprocess_text L inp)) = preprocess_text L inp)"
proof
  assume "\<forall>L inp. preprocess_text L (Text (preprocess_text L inp)) = preprocess_text L inp"
  then have "preprocess_text demo_libs (Text (preprocess_text demo_libs (Text ''things'')))
             = preprocess_text demo_libs (Text ''things'')"
    by blast
  moreover have "preprocess_text demo_libs (Text ''things'') = ''thing''"
    by (simp add: preprocess_text_tokens demo_defs)
  moreover have "preprocess_text demo_libs (Text ''thing'') = []"
    by (simp add: preprocess_text_tokens demo_defs)
  ultimately show False by simp
qed

text \<open>
  The code's own steps leave a text of lower-case words as it is: it holds no opening
  parenthesis, so that no timestamp is found in it, and no capital letter.
\<close>

lemma re_sub_timestamp_no_paren:
  "CHR ''('' \<notin> set s \<Longrightarrow> re_sub_timestamp s = s"
proof (induction s)
  case Nil
  show ?case by simp
next
  case (Cons c cs)
  then have "c \<noteq> CHR ''(''" and "re_sub_timestamp cs = cs" by auto
  moreover from \<open>c \<noteq> CHR ''(''\<close> have "\<not> timestamp_match (c # cs)"
    by (cases "(c # cs)" rule: timestamp_match.cases) auto
  ultimately show ?case by simp
qed

lemma lower_no_upper:
  "\<forall>c \<in> set s. c \<notin> set upper_chars \<Longrightarrow> lower s = s"
  by (induction s) (auto simp: lower_def lower_char_other)

lemma set_join_subset:
  "set (join sep ts) \<subseteq> set sep \<union> (\<Union>t \<in> set ts. set t)"
  by (induction sep ts rule: join.induct) auto

lemma lower_letters_chars:
  assumes "lower_letters t" and "c \<in> set t"
  shows "c \<noteq> CHR ''(''" and "c \<notin> set upper_chars"
proof -
  from assms have "c \<in> set lower_chars"
    by (simp add: lower_letters_def list_all_iff)
  then show "c \<noteq> CHR ''(''" and "c \<notin> set upper_chars"
    by (auto simp: lower_chars_def upper_chars_def)
qed

lemma settled_text_unchanged:
  assumes "list_all lower_letters ts"
  shows "lower (re_sub_timestamp (join '' '' ts)) = join '' '' ts"
proof -
  have chars: "c \<noteq> CHR ''('' \<and> c \<notin> set upper_chars" if "c \<in> set (join '' '' ts)" for c
  proof -
    from that set_join_subset [of "'' ''" ts]
    consider "c = CHR '' ''" | t where "t \<in> set ts" and "c \<in> set t"
      by auto
    then show ?thesis
    proof cases
      case 1
      then show ?thesis by (simp add: upper_chars_def)
    next
      case 2
      with assms have "lower_letters t" by (simp add: list_all_iff)
      with 2 lower_letters_chars show ?thesis by blast
    qed
  qed
  then have "re_sub_timestamp (join '' '' ts) = join '' '' ts"
    by (intro re_sub_timestamp_no_paren) blast
  moreover from chars have "lower (join '' '' ts) = join '' '' ts"
    by (intro lower_no_upper) blast
  ultimately show ?thesis by simp
qed

lemma keep_untagged:
  assumes "list_all (\<lambda>tok. snd tok \<notin> set [''PERSON'', ''GPE'']) doc"
  shows "[fst token. token \<leftarrow> doc, snd token \<notin> set [''PERSON'', ''GPE'']] = map fst doc"
  using assms by (induction doc) auto

lemma keep_settled:
  assumes "settled_tokens L ts"
  shows "[lemmatize L token. token \<leftarrow> ts, token \<notin> custom_stopwords L] = ts"
  using assms by (induction ts) (auto simp: settled_tokens_def)

text \<open>
  C5, amended. Normalizing the output again changes nothing when the output's tokens are
  words of lower-case letters, no stopwords and their own lemmas, and the tagger and the
  tokenizer read a text of such words back as those words, the tagger naming none of them
  a person or a place.
\<close>

theorem idempotent_on_settled_tokens:
  assumes "settled_tokens L (lemma_tokens L inp)"
    and "libs_read_back L (lemma_tokens L inp)"
  shows "preprocess_text L (Text (preprocess_text L inp)) = preprocess_text L inp"
proof -
  let ?ts = "lemma_tokens L inp"
  let ?out = "join '' '' ?ts"
  from assms(1) have "list_all lower_letters ?ts"
    by (simp add: settled_tokens_def list_all_iff)
  then have same: "lower (re_sub_timestamp ?out) = ?out"
    by (rule settled_text_unchanged)
  from assms(2) have toks: "map fst (nlp L ?out) = ?ts"
    and tags: "list_all (\<lambda>tok. snd tok \<notin> set [''PERSON'', ''GPE'']) (nlp L ?out)"
    and rb: "simple_preprocess L ?out True = ?ts"
    by (simp_all add: libs_read_back_def)
  have "simple_tokens L (Text ?out) = ?ts"
    unfolding simple_tokens_def text_input.case same keep_untagged [OF tags] toks rb ..
  then have "lemma_tokens L (Text ?out) = ?ts"
    by (simp add: lemma_tokens_def [of L "Text ?out"] keep_settled [OF assms(1)])
  then show ?thesis
    by (simp add: preprocess_text_tokens)
qed

theorem idempotent_on_settled_tokens_witness:
  "settled_tokens demo_libs (lemma_tokens demo_libs (TextList [''The Economies'', ''(00:01) of France taxes'']))
   \<and> libs_read_back demo_libs (lemma_tokens demo_libs (TextList [''The Economies'', ''(00:01) of France taxes'']))
   \<and> preprocess_text demo_libs (TextList [''The Economies'', ''(00:01) of France taxes'']) = ''economy tax''
   \<and> preprocess_text demo_libs (Text ''economy tax'') = ''economy tax''"
proof -
  let ?inp = "TextList [''The Economies'', ''(00:01) of France taxes'']"
  have toks: "lemma_tokens demo_libs ?inp = [''economy'', ''tax'']"
    by (simp add: demo_defs)
  have out: "preprocess_text demo_libs ?inp = ''economy tax''"
    by (simp add: preprocess_text_tokens toks)
  have settled: "settled_tokens demo_libs [''economy'', ''tax'']"
    by (simp add: settled_tokens_def lower_letters_def demo_defs)
  have rb: "libs_read_back demo_libs [''economy'', ''tax'']"
    by (simp add: libs_read_back_def demo_defs)
  from idempotent_on_settled_tokens [of demo_libs ?inp] toks out settled rb
  show ?thesis by simp
qed

text \<open>
  No condition can be left out. With a lemmatizer that returns a word of one letter,
  which the tokenizer does not keep, or a word that the tagger takes for a name, the
  tokens of the output are settled and the second pass still loses them; with one that
  returns a word in capital letters, the libraries read the output back and the second
  pass still changes it.
\<close>

lemma tokenizer_read_back_needed:
  "settled_tokens (demo_libs\<lparr>lemmatize := (\<lambda>w. if w = ''os'' then ''o'' else w)\<rparr>) [''o'']
   \<and> preprocess_text (demo_libs\<lparr>lemmatize := (\<lambda>w. if w = ''os'' then ''o'' else w)\<rparr>) (Text ''os'') = ''o''
   \<and> preprocess_text (demo_libs\<lparr>lemmatize := (\<lambda>w. if w = ''os'' then ''o'' else w)\<rparr>) (Text ''o'') = []"
  by (simp add: settled_tokens_def lower_letters_def preprocess_text_tokens demo_defs)

lemma tagger_read_back_needed:
  "settled_tokens (demo_libs\<lparr>lemmatize := (\<lambda>w. if w = ''lincolns'' then ''lincoln'' else w)\<rparr>) [''lincoln'']
   \<and> preprocess_text (demo_libs\<lparr>lemmatize := (\<lambda>w. if w = ''lincolns'' then ''lincoln'' else w)\<rparr>)
       (Text ''lincolns'') = ''lincoln''
   \<and> preprocess_text (demo_libs\<lparr>lemmatize := (\<lambda>w. if w = ''lincolns'' then ''lincoln'' else w)\<rparr>)
       (Text ''lincoln'') = []"
  by (simp add: settled_tokens_def lower_letters_def preprocess_text_tokens demo_defs)

lemma lower_case_needed:
  "libs_read_back (demo_libs\<lparr>lemmatize := (\<lambda>w. if w = ''ibms'' then ''IBM'' else w)\<rparr>) [''IBM'']
   \<and> ''IBM'' \<notin> custom_stopwords (demo_libs\<lparr>lemmatize := (\<lambda>w. if w = ''ibms'' then ''IBM'' else w)\<rparr>)
   \<and> lemmatize (demo_libs\<lparr>lemmatize := (\<lambda>w. if w = ''ibms'' then ''IBM'' else w)\<rparr>) ''IBM'' = ''IBM''
   \<and> preprocess_text (demo_libs\<lparr>lemmatize := (\<lambda>w. if w = ''ibms'' then ''IBM'' else w)\<rparr>)
       (Text ''ibms'') = ''IBM''
   \<and> preprocess_text (demo_libs\<lparr>lemmatize := (\<lambda>w. if w = ''ibms'' then ''IBM'' else w)\<rparr>)
       (Text ''IBM'') = ''ibm''"
  by (simp add: libs_read_back_def preprocess_text_tokens demo_defs)

subsection \<open>Empty documents\<close>

lemma no_tokens_left:
  assumes "\<forall>t \<in> set (simple_tokens L inp). t \<in> custom_stopwords L"
  shows "preprocess_text L inp = []"
proof -
  have "[lemmatize L token. token \<leftarrow> ts, token \<notin> custom_stopwords L] = []"
    if "\<forall>t \<in> set ts. t \<in> custom_stopwords L" for ts
    using that by (induction ts) auto
  with assms have "lemma_tokens L inp = []"
    by (simp add: lemma_tokens_def)
  then show ?thesis by (simp add: preprocess_text_tokens)
qed

lemma topic_identification_matrix:
  "topic_identification L (Some v) (Some l) topic_words text
   = topics_of_matrix L l topic_words (cv_transform L v [preprocess_text L (Text text)])"
  by (simp add: topic_identification_def score_document_def topics_of_matrix_def
        split: list.splits prod.splits)

lemma train_topic_model_split:
  assumes "df \<noteq> [] \<or> \<not> debug"
  shows "\<exists>pre. filter is_error pre = []
           \<and> train_topic_model L rng df n_topics debug
             = (pre @ fst (vectorize_and_fit L rng (map (\<lambda>x. preprocess_text L (Text x)) df) n_topics debug),
                snd (vectorize_and_fit L rng (map (\<lambda>x. preprocess_text L (Text x)) df) n_topics debug))"
proof (cases debug)
  case True
  with assms have "df \<noteq> []" by simp
  with True have "train_topic_model L rng df n_topics debug
      = ([Write (''Number of documents: '' @ show_nat (length df)),
          Write (''Sample raw text (first 100 chars): '' @ take 100 (hd df)),
          Write (''Sample preprocessed text (first 100 chars): ''
                 @ take 100 (hd (map (\<lambda>x. preprocess_text L (Text x)) df)))]
         @ fst (vectorize_and_fit L rng (map (\<lambda>x. preprocess_text L (Text x)) df) n_topics debug),
         snd (vectorize_and_fit L rng (map (\<lambda>x. preprocess_text L (Text x)) df) n_topics debug))"
    by (simp add: train_topic_model_def Let_def split: prod.splits)
  moreover have "filter is_error
      [Write (''Number of documents: '' @ show_nat (length df)),
       Write (''Sample raw text (first 100 chars): '' @ take 100 (hd df)),
       Write (''Sample preprocessed text (first 100 chars): ''
              @ take 100 (hd (map (\<lambda>x. preprocess_text L (Text x)) df)))] = []"
    by simp
  ultimately show ?thesis by blast
next
  case False
  then have "train_topic_model L rng df n_topics debug
      = ([] @ fst (vectorize_and_fit L rng (map (\<lambda>x. preprocess_text L (Text x)) df) n_topics debug),
         snd (vectorize_and_fit L rng (map (\<lambda>x. preprocess_text L (Text x)) df) n_topics debug))"
    by (simp add: train_topic_model_def Let_def split: prod.splits)
  moreover have "filter is_error [] = []" by simp
  ultimately show ?thesis by blast
qed

lemma vectorize_and_fit_outcome:
  shows "snd (vectorize_and_fit L rng docs n_topics debug)
     = (case fit_transform L docs of
          Inl msg \<Rightarrow> Inr (None, None)
        | Inr (vocab, m) \<Rightarrow>
            if vocab = [] then Inr (None, None)
            else Inr (Some (CountVectorizer\<lparr>vocabulary := vocab\<rparr>),
                      Some (lda_fit L (LatentDirichletAllocation n_topics) rng m)))"
  and "filter is_error (fst (vectorize_and_fit L rng docs n_topics debug))
     = (case fit_transform L docs of
          Inl msg \<Rightarrow> [Error (''Error in vectorization: '' @ msg)]
        | Inr (vocab, m) \<Rightarrow>
            if vocab = [] then
              [Error ''Error: Empty vocabulary. Please check your preprocessing steps.'']
            else [])"
  by (simp_all add: vectorize_and_fit_def Let_def split: sum.splits prod.splits)

lemma train_topic_model_outcome:
  assumes "df \<noteq> [] \<or> \<not> debug"
  shows "snd (train_topic_model L rng df n_topics debug)
     = (case fit_transform L (map (\<lambda>x. preprocess_text L (Text x)) df) of
          Inl msg \<Rightarrow> Inr (None, None)
        | Inr (vocab, m) \<Rightarrow>
            if vocab = [] then Inr (None, None)
            else Inr (Some (CountVectorizer\<lparr>vocabulary := vocab\<rparr>),
                      Some (lda_fit L (LatentDirichletAllocation n_topics) rng m)))"
  and "filter is_error (fst (train_topic_model L rng df n_topics debug))
     = (case fit_transform L (map (\<lambda>x. preprocess_text L (Text x)) df) of
          Inl msg \<Rightarrow> [Error (''Error in vectorization: '' @ msg)]
        | Inr (vocab, m) \<Rightarrow>
            if vocab = [] then
              [Error ''Error: Empty vocabulary. Please check your preprocessing steps.'']
            else [])"
proof -
  from train_topic_model_split [OF assms, of L rng n_topics]
  obtain pre where pre: "filter is_error pre = []"
    and eq: "train_topic_model L rng df n_topics debug
             = (pre @ fst (vectorize_and_fit L rng (map (\<lambda>x. preprocess_text L (Text x)) df) n_topics debug),
                snd (vectorize_and_fit L rng (map (\<lambda>x. preprocess_text L (Text x)) df) n_topics debug))"
    by blast
  show "snd (train_topic_model L rng df n_topics debug)
     = (case fit_transform L (map (\<lambda>x. preprocess_text L (Text x)) df) of
          Inl msg \<Rightarrow> Inr (None, None)
        | Inr (vocab, m) \<Rightarrow>
            if vocab = [] then Inr (None, None)
            else Inr (Some (CountVectorizer\<lparr>vocabulary := vocab\<rparr>),
                      Some (lda_fit L (LatentDirichletAllocation n_topics) rng m)))"
    by (simp only: eq snd_conv vectorize_and_fit_outcome(1))
  show "filter is_error (fst (train_topic_model L rng df n_topics debug))
     = (case fit_transform L (map (\<lambda>x. preprocess_text L (Text x)) df) of
          Inl msg \<Rightarrow> [Error (''Error in vectorization: '' @ msg)]
        | Inr (vocab, m) \<Rightarrow>
            if vocab = [] then
              [Error ''Error: Empty vocabulary. Please check your preprocessing steps.'']
            else [])"
    by (simp only: eq fst_conv filter_append pre append_Nil vectorize_and_fit_outcome(2))
qed

text \<open>
  C7. As stated the claim fails where the input itself is empty: for an empty selected
  transcript the page does not score the empty document through the vectorizer; it shows
  the warning of line 222 and calls nothing.
\<close>

theorem empty_transcript_not_vectorized:
  "\<not> (\<forall>L v l topic_words text.
        (\<forall>t \<in> set (simple_tokens L (Text text)). t \<in> custom_stopwords L) \<longrightarrow>
        page_topic_identification L (Some v) (Some l) topic_words text
        = topics_of_matrix L l topic_words (cv_transform L v [[]]))"
proof
  assume a: "\<forall>L v l topic_words text.
        (\<forall>t \<in> set (simple_tokens L (Text text)). t \<in> custom_stopwords L) \<longrightarrow>
        page_topic_identification L (Some v) (Some l) topic_words text
        = topics_of_matrix L l topic_words (cv_transform L v [[]])"
  have "simple_tokens demo_libs (Text []) = []"
    by (simp add: demo_defs)
  with a have "page_topic_identification demo_libs (Some CountVectorizer)
                 (Some \<lparr>components = []\<rparr>) [[], [], [], [], []] []
               = topics_of_matrix demo_libs \<lparr>components = []\<rparr> [[], [], [], [], []]
                   (cv_transform demo_libs CountVectorizer [[]])"
    by simp
  moreover have "page_topic_identification demo_libs (Some CountVectorizer)
                 (Some \<lparr>components = []\<rparr>) [[], [], [], [], []] []
               = ([Warning ''The selected transcript is empty.''], None)"
    by (simp add: page_topic_identification_def)
  moreover have "fst (topics_of_matrix demo_libs \<lparr>components = []\<rparr> [[], [], [], [], []]
                   (cv_transform demo_libs CountVectorizer [[]]))
               \<noteq> [Warning ''The selected transcript is empty.'']"
    by (simp add: topics_of_matrix_def demo_libs_def transform_def)
  ultimately show False by (metis fst_conv)
qed

text \<open>
  C7, amended. When no token is left after the timestamp, entity and stopword filters,
  \<open>preprocess_text\<close> returns the empty string. A selected transcript that is not empty
  and is normalized to the empty string is scored from what the vectorizer's
  \<open>transform\<close> returns for the empty document. In training, with \<open>debug\<close> on or off, a
  row normalized to the empty string (the empty row among them) is handed to the
  vectorizer's \<open>fit_transform\<close> in its place among the documents, and the result and the
  errors shown are those of the vectorizer's outcome alone.
\<close>

theorem empty_normalization_is_soft:
  assumes "\<forall>t \<in> set (simple_tokens L inp). t \<in> custom_stopwords L"
    and "\<forall>t \<in> set (simple_tokens L (Text row)). t \<in> custom_stopwords L"
    and "\<forall>t \<in> set (simple_tokens L (Text text)). t \<in> custom_stopwords L"
    and "text \<noteq> []"
  shows "preprocess_text L inp = []
         \<and> page_topic_identification L (Some v) (Some l) topic_words text
             = topics_of_matrix L l topic_words (cv_transform L v [[]])
         \<and> snd (train_topic_model L rng (before @ row # after) n_topics debug)
             = (case fit_transform L (map (\<lambda>x. preprocess_text L (Text x)) before @ []
                                        # map (\<lambda>x. preprocess_text L (Text x)) after) of
                  Inl msg \<Rightarrow> Inr (None, None)
                | Inr (vocab, m) \<Rightarrow>
                    if vocab = [] then Inr (None, None)
                    else Inr (Some (CountVectorizer\<lparr>vocabulary := vocab\<rparr>),
                              Some (lda_fit L (LatentDirichletAllocation n_topics) rng m)))
         \<and> filter is_error (fst (train_topic_model L rng (before @ row # after) n_topics debug))
             = (case fit_transform L (map (\<lambda>x. preprocess_text L (Text x)) before @ []
                                        # map (\<lambda>x. preprocess_text L (Text x)) after) of
                  Inl msg \<Rightarrow> [Error (''Error in vectorization: '' @ msg)]
                | Inr (vocab, m) \<Rightarrow>
                    if vocab = [] then
                      [Error ''Error: Empty vocabulary. Please check your preprocessing steps.'']
                    else [])"
proof -
  have e1: "preprocess_text L inp = []"
    by (rule no_tokens_left [OF assms(1)])
  have e2: "preprocess_text L (Text row) = []"
    by (rule no_tokens_left [OF assms(2)])
  have e3: "preprocess_text L (Text text) = []"
    by (rule no_tokens_left [OF assms(3)])
  have docs: "map (\<lambda>x. preprocess_text L (Text x)) (before @ row # after)
              = map (\<lambda>x. preprocess_text L (Text x)) before @ []
                  # map (\<lambda>x. preprocess_text L (Text x)) after"
    by (simp add: e2)
  have ne: "before @ row # after \<noteq> [] \<or> \<not> debug"
    by simp
  have page: "page_topic_identification L (Some v) (Some l) topic_words text
             = topics_of_matrix L l topic_words (cv_transform L v [[]])"
    using assms(4) by (simp add: page_topic_identification_def topic_identification_matrix e3)
  from e1 page train_topic_model_outcome [OF ne, of L rng n_topics, unfolded docs]
  show ?thesis by (intro conjI)
qed

theorem empty_normalization_is_soft_witness:
  "list_all (\<lambda>t. t \<in> custom_stopwords demo_libs) (simple_tokens demo_libs (TextList []))
   \<and> list_all (\<lambda>t. t \<in> custom_stopwords demo_libs) (simple_tokens demo_libs (Text []))
   \<and> list_all (\<lambda>t. t \<in> custom_stopwords demo_libs)
        (simple_tokens demo_libs (Text ''The (00:00) Lincoln''))
   \<and> ''The (00:00) Lincoln'' \<noteq> []
   \<and> preprocess_text demo_libs (TextList []) = []
   \<and> page_topic_identification demo_libs
         (Some (CountVectorizer\<lparr>vocabulary := [(''tax'', 0)]\<rparr>)) (Some \<lparr>components = [[1], [2]]\<rparr>)
         [[''a''], [''b'', ''c''], [''d''], [''e''], [''f'']] ''The (00:00) Lincoln''
       = ([Write ''Key Topics for the Selected Transcript:'', WriteTopic ''b, c'' (1 / 2),
           WriteTopic ''d'' (3 / 10), WriteTopic ''f'' (3 / 20)], None)
   \<and> snd (train_topic_model demo_libs 0 [''taxes'', [], ''tax''] 2 True)
       = Inr (Some (CountVectorizer\<lparr>vocabulary := [(''tax'', 0)]\<rparr>),
              Some \<lparr>components = [[1], [2]]\<rparr>)
   \<and> filter is_error (fst (train_topic_model demo_libs 0 [''taxes'', [], ''tax''] 2 True)) = []"
proof -
  have t0: "simple_tokens demo_libs (TextList []) = []"
    by (simp add: demo_defs)
  have t1: "simple_tokens demo_libs (Text []) = []"
    by (simp add: demo_defs)
  have t2: "simple_tokens demo_libs (Text ''The (00:00) Lincoln'') = [''the'']"
    by (simp add: demo_defs)
  have s2: "''the'' \<in> custom_stopwords demo_libs"
    by (simp add: demo_defs)
  have p0: "preprocess_text demo_libs (Text ''taxes'') = ''tax''"
    by (simp add: preprocess_text_tokens demo_defs)
  have p1: "preprocess_text demo_libs (Text ''tax'') = ''tax''"
    by (simp add: preprocess_text_tokens demo_defs)
  have sc: "topics_of_matrix demo_libs \<lparr>components = [[1], [2]]\<rparr>
              [[''a''], [''b'', ''c''], [''d''], [''e''], [''f'']]
              (cv_transform demo_libs (CountVectorizer\<lparr>vocabulary := [(''tax'', 0)]\<rparr>) [[]])
            = ([Write ''Key Topics for the Selected Transcript:'', WriteTopic ''b, c'' (1 / 2),
                WriteTopic ''d'' (3 / 10), WriteTopic ''f'' (3 / 20)], None)"
    by (simp add: topics_of_matrix_def show_topics_def relevant_topics_def relevance_threshold_def
          demo_libs_def transform_def)
  have ft: "fit_transform demo_libs [''tax'', [], ''tax''] = Inr ([(''tax'', 0)], [[1], [0], [1]])"
    by code_simp
  have lf: "lda_fit demo_libs (LatentDirichletAllocation 2) 0 [[1], [0], [1]]
            = \<lparr>components = [[1], [2]]\<rparr>"
    by code_simp
  from empty_normalization_is_soft [of demo_libs "TextList []" "[]" "''The (00:00) Lincoln''"
      "CountVectorizer\<lparr>vocabulary := [(''tax'', 0)]\<rparr>" "\<lparr>components = [[1], [2]]\<rparr>"
      "[[''a''], [''b'', ''c''], [''d''], [''e''], [''f'']]" 0 "[''taxes'']" "[''tax'']" 2 True]
    t0 t1 t2 s2 p0 p1 sc ft lf
  show ?thesis by simp
qed

subsection \<open>Topic identification\<close>

lemma relevant_comprehension:
  "[(i, strength). (i, strength) \<leftarrow> xs, strength > threshold]
   = filter (\<lambda>p. threshold < snd p) xs" for xs :: "(nat \<times> real) list"
  by (induction xs) auto

lemma relevant_topics_filter:
  "relevant_topics threshold doc_topics
   = sort_key (\<lambda>x. - snd x) (filter (\<lambda>p. threshold < snd p) (enumerate 0 doc_topics))"
  by (simp add: relevant_topics_def relevant_comprehension)

lemma set_relevant_topics:
  "set (relevant_topics threshold doc_topics)
   = {(i, doc_topics ! i) | i. i < length doc_topics \<and> threshold < doc_topics ! i}"
  by (auto simp: relevant_topics_filter in_set_enumerate_eq)

lemma distinct_fst_relevant_topics:
  "distinct (map fst (relevant_topics threshold doc_topics))"
proof -
  have "distinct (relevant_topics threshold doc_topics)"
    by (simp add: relevant_topics_filter)
  moreover have "inj_on fst (set (relevant_topics threshold doc_topics))"
    by (auto simp: set_relevant_topics inj_on_def)
  ultimately show ?thesis by (simp add: distinct_map)
qed

lemma descending_relevant_topics:
  "sorted_wrt (\<lambda>a b. snd b \<le> snd a) (relevant_topics threshold doc_topics)"
proof -
  have "sorted (map (\<lambda>x. - snd x) (relevant_topics threshold doc_topics))"
    unfolding relevant_topics_filter by (rule sorted_sort_key)
  then show ?thesis by (simp add: sorted_map)
qed

lemma relevant_topics_empty_iff:
  "relevant_topics threshold doc_topics = [] \<longleftrightarrow> (\<forall>s \<in> set doc_topics. s \<le> threshold)"
proof -
  have "relevant_topics threshold doc_topics = [] \<longleftrightarrow> set (relevant_topics threshold doc_topics) = {}"
    by simp
  also have "\<dots> \<longleftrightarrow> (\<forall>i < length doc_topics. doc_topics ! i \<le> threshold)"
    by (simp add: set_relevant_topics) (metis not_less)
  also have "\<dots> \<longleftrightarrow> (\<forall>s \<in> set doc_topics. s \<le> threshold)"
    by (metis in_set_conv_nth)
  finally show ?thesis .
qed

lemma write_topics_in_range:
  "\<forall>p \<in> set xs. fst p < length topic_words \<Longrightarrow>
   write_topics topic_words xs
   = (map (\<lambda>(i, s). WriteTopic (join '', '' (take 5 (topic_words ! i))) s) xs, None)"
  by (induction xs) auto

lemma relevant_topics_in_range:
  "p \<in> set (relevant_topics threshold doc_topics) \<Longrightarrow> fst p < length doc_topics"
  by (auto simp: set_relevant_topics)

lemma show_topics_eq:
  assumes "length doc_topics \<le> length topic_words"
  shows "show_topics threshold top_k topic_words doc_topics
         = (if relevant_topics threshold doc_topics = []
            then [Write ''No strong topics identified in the selected transcript.'']
            else map (\<lambda>(i, s). WriteTopic (join '', '' (take 5 (topic_words ! i))) s)
                   (take top_k (relevant_topics threshold doc_topics)),
            None)"
proof -
  have "\<forall>p \<in> set (take top_k (relevant_topics threshold doc_topics)). fst p < length topic_words"
    using assms by (auto dest!: in_set_takeD relevant_topics_in_range)
  then show ?thesis
    by (simp add: show_topics_def write_topics_in_range)
qed

lemma length_relevant_topics_antimono:
  assumes "t1 \<le> t2"
  shows "length (relevant_topics t2 doc_topics) \<le> length (relevant_topics t1 doc_topics)"
proof -
  have "length (filter (\<lambda>p. t2 < snd p) ps) \<le> length (filter (\<lambda>p. t1 < snd p) ps)"
    for ps :: "(nat \<times> real) list"
    using assms by (induction ps) auto
  then show ?thesis
    by (simp add: relevant_topics_filter)
qed

lemma topic_lines_show_topics:
  assumes "length doc_topics \<le> length topic_words"
  shows "length (filter is_topic_line (fst (show_topics threshold top_k topic_words doc_topics)))
         = min top_k (length (relevant_topics threshold doc_topics))"
proof -
  have "filter is_topic_line (map (\<lambda>(i, s). WriteTopic (f i) s) xs)
        = map (\<lambda>(i, s). WriteTopic (f i) s) xs" for f and xs :: "(nat \<times> real) list"
    by (induction xs) auto
  then show ?thesis
    by (simp add: show_topics_eq [OF assms] min.commute)
qed

text \<open>
  C6. For a fixed vector of topic strengths (and one word list per topic), a higher
  threshold never gives more topics, and so a lower one never gives fewer: both for the
  entries selected and for the bullet lines the page shows.
\<close>

theorem threshold_monotone:
  assumes "t1 \<le> t2" and "length doc_topics \<le> length topic_words"
  shows "length (take top_k (relevant_topics t2 doc_topics))
           \<le> length (take top_k (relevant_topics t1 doc_topics))
         \<and> length (filter is_topic_line (fst (show_topics t2 top_k topic_words doc_topics)))
           \<le> length (filter is_topic_line (fst (show_topics t1 top_k topic_words doc_topics)))"
  using length_relevant_topics_antimono [OF assms(1), of doc_topics]
  by (simp add: topic_lines_show_topics [OF assms(2)] min.coboundedI2)

theorem threshold_monotone_witness:
  "(1 / 10 :: real) \<le> 1 / 5
   \<and> length [1 / 20, 1 / 2, 3 / 10, 1 / 10, 3 / 20 :: real]
       \<le> length [[''a''], [''b''], [''c''], [''d''], [''e'']]
   \<and> length (take 3 (relevant_topics (1 / 5) [1 / 20, 1 / 2, 3 / 10, 1 / 10, 3 / 20])) = 2
   \<and> length (take 3 (relevant_topics (1 / 10) [1 / 20, 1 / 2, 3 / 10, 1 / 10, 3 / 20])) = 3
   \<and> length (filter is_topic_line (fst (show_topics (1 / 5) 3
         [[''a''], [''b''], [''c''], [''d''], [''e'']] [1 / 20, 1 / 2, 3 / 10, 1 / 10, 3 / 20])))
       \<le> length (filter is_topic_line (fst (show_topics (1 / 10) 3
         [[''a''], [''b''], [''c''], [''d''], [''e'']] [1 / 20, 1 / 2, 3 / 10, 1 / 10, 3 / 20])))"
proof -
  have r2: "relevant_topics (1 / 5) [1 / 20, 1 / 2, 3 / 10, 1 / 10, 3 / 20]
            = [(1, 1 / 2), (2, 3 / 10)]"
    by (simp add: relevant_topics_def)
  have r1: "relevant_topics (1 / 10) [1 / 20, 1 / 2, 3 / 10, 1 / 10, 3 / 20]
            = [(1, 1 / 2), (2, 3 / 10), (4, 3 / 20)]"
    by (simp add: relevant_topics_def)
  from threshold_monotone [of "1 / 10" "1 / 5" "[1 / 20, 1 / 2, 3 / 10, 1 / 10, 3 / 20]"
      "[[''a''], [''b''], [''c''], [''d''], [''e'']]" 3] r1 r2
  show ?thesis by simp
qed

text \<open>
  C1. For a bundle with one word list per topic and the strengths \<open>doc_topics\<close> that the
  model gives the text, the entries kept are exactly the topics whose strength is above
  the threshold, each once, in descending order of strength; at most \<open>top_k\<close> of them
  are shown, each labelled with the first five words of its list; when no strength is
  above the threshold nothing is selected and the page shows the "no strong topics"
  message, without an error. The page itself runs this with the threshold 0.1 and
  \<open>top_k\<close> 3.
\<close>

theorem scoring_selects_top_topics:
  assumes "lda_transform L l (cv_transform L v [preprocess_text L (Text text)]) = doc_topics # rows"
    and "length topic_words = length doc_topics"
  shows "set (relevant_topics threshold doc_topics)
           = {(i, doc_topics ! i) | i. i < length doc_topics \<and> threshold < doc_topics ! i}
         \<and> distinct (map fst (relevant_topics threshold doc_topics))
         \<and> sorted_wrt (\<lambda>a b. snd b \<le> snd a) (relevant_topics threshold doc_topics)
         \<and> show_topics threshold top_k topic_words doc_topics
           = (if relevant_topics threshold doc_topics = []
              then [Write ''No strong topics identified in the selected transcript.'']
              else map (\<lambda>(i, s). WriteTopic (join '', '' (take 5 (topic_words ! i))) s)
                     (take top_k (relevant_topics threshold doc_topics)),
              None)
         \<and> length (take top_k (relevant_topics threshold doc_topics)) \<le> top_k
         \<and> (relevant_topics threshold doc_topics = [] \<longleftrightarrow> (\<forall>s \<in> set doc_topics. s \<le> threshold))
         \<and> topic_identification L (Some v) (Some l) topic_words text
           = (Write ''Key Topics for the Selected Transcript:''
                # fst (show_topics (1 / 10) 3 topic_words doc_topics), None)"
proof -
  have len: "length doc_topics \<le> length topic_words"
    using assms(2) by simp
  have "topic_identification L (Some v) (Some l) topic_words text
        = (Write ''Key Topics for the Selected Transcript:''
             # fst (show_topics (1 / 10) 3 topic_words doc_topics), None)"
    by (simp add: topic_identification_def score_document_def assms(1) relevance_threshold_def
          show_topics_eq [OF len])
  then show ?thesis
    by (simp add: set_relevant_topics distinct_fst_relevant_topics descending_relevant_topics
          show_topics_eq [OF len] relevant_topics_empty_iff)
qed

theorem scoring_selects_top_topics_witness:
  "lda_transform demo_libs \<lparr>components = [[1], [2]]\<rparr>
     (cv_transform demo_libs (CountVectorizer\<lparr>vocabulary := [(''tax'', 0)]\<rparr>)
        [preprocess_text demo_libs (Text ''Taxes and tax'')])
     = [1 / 20, 1 / 2, 3 / 10, 1 / 10, 3 / 20] # []
   \<and> length [[''a''], [''b1'', ''b2'', ''b3'', ''b4'', ''b5'', ''b6''], [''c''], [''d''], [''e'']]
       = length [1 / 20, 1 / 2, 3 / 10, 1 / 10, 3 / 20 :: real]
   \<and> relevant_topics (1 / 10) [1 / 20, 1 / 2, 3 / 10, 1 / 10, 3 / 20]
       = [(1, 1 / 2), (2, 3 / 10), (4, 3 / 20)]
   \<and> show_topics (1 / 10) 2
         [[''a''], [''b1'', ''b2'', ''b3'', ''b4'', ''b5'', ''b6''], [''c''], [''d''], [''e'']]
         [1 / 20, 1 / 2, 3 / 10, 1 / 10, 3 / 20]
       = ([WriteTopic ''b1, b2, b3, b4, b5'' (1 / 2), WriteTopic ''c'' (3 / 10)], None)
   \<and> topic_identification demo_libs (Some (CountVectorizer\<lparr>vocabulary := [(''tax'', 0)]\<rparr>))
         (Some \<lparr>components = [[1], [2]]\<rparr>)
         [[''a''], [''b1'', ''b2'', ''b3'', ''b4'', ''b5'', ''b6''], [''c''], [''d''], [''e'']]
         ''Taxes and tax''
       = ([Write ''Key Topics for the Selected Transcript:'',
           WriteTopic ''b1, b2, b3, b4, b5'' (1 / 2), WriteTopic ''c'' (3 / 10),
           WriteTopic ''e'' (3 / 20)], None)"
proof -
  have rows: "lda_transform demo_libs \<lparr>components = [[1], [2]]\<rparr>
     (cv_transform demo_libs (CountVectorizer\<lparr>vocabulary := [(''tax'', 0)]\<rparr>)
        [preprocess_text demo_libs (Text ''Taxes and tax'')])
     = [1 / 20, 1 / 2, 3 / 10, 1 / 10, 3 / 20] # []"
    by (simp add: demo_libs_def transform_def)
  have r1: "relevant_topics (1 / 10) [1 / 20, 1 / 2, 3 / 10, 1 / 10, 3 / 20]
            = [(1, 1 / 2), (2, 3 / 10), (4, 3 / 20)]"
    by (simp add: relevant_topics_def)
  from scoring_selects_top_topics [of demo_libs "\<lparr>components = [[1], [2]]\<rparr>"
      "CountVectorizer\<lparr>vocabulary := [(''tax'', 0)]\<rparr>" "''Taxes and tax''"
      "[1 / 20, 1 / 2, 3 / 10, 1 / 10, 3 / 20]" "[]"
      "[[''a''], [''b1'', ''b2'', ''b3'', ''b4'', ''b5'', ''b6''], [''c''], [''d''], [''e'']]"
      "1 / 10" 2] rows r1
  have "show_topics (1 / 10) 2
         [[''a''], [''b1'', ''b2'', ''b3'', ''b4'', ''b5'', ''b6''], [''c''], [''d''], [''e'']]
         [1 / 20, 1 / 2, 3 / 10, 1 / 10, 3 / 20]
       = ([WriteTopic ''b1, b2, b3, b4, b5'' (1 / 2), WriteTopic ''c'' (3 / 10)], None)
     \<and> topic_identification demo_libs (Some (CountVectorizer\<lparr>vocabulary := [(''tax'', 0)]\<rparr>))
         (Some \<lparr>components = [[1], [2]]\<rparr>)
         [[''a''], [''b1'', ''b2'', ''b3'', ''b4'', ''b5'', ''b6''], [''c''], [''d''], [''e'']]
         ''Taxes and tax''
       = (Write ''Key Topics for the Selected Transcript:''
           # fst (show_topics (1 / 10) 3
               [[''a''], [''b1'', ''b2'', ''b3'', ''b4'', ''b5'', ''b6''], [''c''], [''d''], [''e'']]
               [1 / 20, 1 / 2, 3 / 10, 1 / 10, 3 / 20]), None)"
    by simp
  moreover have "show_topics (1 / 10) 3
         [[''a''], [''b1'', ''b2'', ''b3'', ''b4'', ''b5'', ''b6''], [''c''], [''d''], [''e'']]
         [1 / 20, 1 / 2, 3 / 10, 1 / 10, 3 / 20]
       = ([WriteTopic ''b1, b2, b3, b4, b5'' (1 / 2), WriteTopic ''c'' (3 / 10),
           WriteTopic ''e'' (3 / 20)], None)"
    by (simp add: show_topics_def r1)
  ultimately show ?thesis using rows r1 by simp
qed

subsection \<open>Top words of the topics\<close>

lemma index_all_in_range:
  "\<forall>i \<in> set idx. i < length feature_names \<Longrightarrow>
   index_all feature_names idx = Inr (map ((!) feature_names) idx)"
  by (induction idx) auto

lemma topic_words_loop_in_range:
  "\<forall>topic \<in> set comps. \<forall>i \<in> set (slice_top n (argsort L topic)). i < length feature_names \<Longrightarrow>
   topic_words_loop L comps feature_names n
   = Inr (map (\<lambda>topic. map ((!) feature_names) (slice_top n (argsort L topic))) comps)"
  by (induction comps) (auto simp: index_all_in_range)

lemma is_argsort_set:
  assumes "is_argsort idx xs"
  shows "set idx = {0..<length xs}" and "distinct idx" and "length idx = length xs"
proof -
  from assms have s: "sort idx = [0..<length xs]"
    by (simp add: is_argsort_def)
  have "set idx = set (sort idx)" by simp
  with s show "set idx = {0..<length xs}" by simp
  have "distinct idx = distinct (sort idx)" by simp
  with s show "distinct idx" by simp
  have "length idx = length (sort idx)" by simp
  with s show "length idx = length xs" by simp
qed

lemma top_of_argsort:
  assumes "is_argsort idx topic"
  shows "is_top_n n topic (take n (rev idx))"
proof -
  note facts = is_argsort_set [OF assms]
  let ?top = "take n (rev idx)"
  have asc: "sorted_wrt (\<lambda>i j. topic ! i \<le> topic ! j) idx"
    using assms by (simp add: is_argsort_def sorted_map)
  have desc: "sorted_wrt (\<lambda>i j. topic ! j \<le> topic ! i) (rev idx)"
    using asc by (simp add: sorted_wrt_rev)
  have split: "rev idx = ?top @ drop n (rev idx)"
    by simp
  have len: "length ?top = min n (length topic)"
    using facts(3) by (simp add: min.commute)
  have dist: "distinct ?top"
    using facts(2) by (simp add: distinct_take)
  have sub: "set ?top \<subseteq> set [0..<length topic]"
    using facts(1) set_take_subset [of n "rev idx"] by auto
  have sorted_top: "sorted_wrt (\<lambda>i j. topic ! j \<le> topic ! i) ?top"
    using desc by (rule sorted_wrt_take)
  have rest: "topic ! j \<le> topic ! i"
    if "i \<in> set ?top" and "j \<in> set [0..<length topic] - set ?top" for i j
  proof -
    from that(2) facts(1) have "j \<in> set (rev idx)" by simp
    then have "j \<in> set ?top \<union> set (drop n (rev idx))"
      by (metis split set_append)
    with that(2) have "j \<in> set (drop n (rev idx))" by simp
    moreover from desc have "sorted_wrt (\<lambda>i j. topic ! j \<le> topic ! i) (?top @ drop n (rev idx))"
      by simp
    ultimately show ?thesis
      using that(1) by (simp only: sorted_wrt_append)
  qed
  from len dist sub sorted_top rest show ?thesis
    unfolding is_top_n_def by blast
qed

text \<open>
  C8. For a model whose topics have no more weights than there are feature names, an
  \<open>argsort\<close> that returns an ascending permutation of the indices, and \<open>n\<close> at least
  0, \<open>get_topic_words\<close> returns one list per topic, in the order of the topics: the
  feature names of the \<open>n\<close> indices of highest weight, in descending order of weight.
  Nothing is said of the order of equal weights.
\<close>

theorem get_topic_words_top_n:
  assumes "0 \<le> n"
    and "\<forall>topic \<in> set (components model).
           is_argsort (argsort L topic) topic \<and> length topic \<le> length feature_names"
  shows "get_topic_words L model feature_names n
           = Inr (map (\<lambda>topic. map ((!) feature_names) (take (nat n) (rev (argsort L topic))))
                    (components model))
         \<and> (\<forall>topic \<in> set (components model).
               is_top_n (nat n) topic (take (nat n) (rev (argsort L topic))))"
proof -
  have sl: "slice_top n xs = take (nat n) (rev xs)" for xs :: "nat list"
    using assms(1) by (simp add: slice_top_def)
  have "\<forall>topic \<in> set (components model).
          \<forall>i \<in> set (slice_top n (argsort L topic)). i < length feature_names"
  proof (intro ballI)
    fix topic i
    assume t: "topic \<in> set (components model)" and i: "i \<in> set (slice_top n (argsort L topic))"
    from t assms(2) have a: "is_argsort (argsort L topic) topic"
      and l: "length topic \<le> length feature_names" by auto
    from i have "i \<in> set (argsort L topic)"
      by (auto simp: sl dest: in_set_takeD)
    with is_argsort_set(1) [OF a] l show "i < length feature_names" by simp
  qed
  then have "get_topic_words L model feature_names n
           = Inr (map (\<lambda>topic. map ((!) feature_names) (take (nat n) (rev (argsort L topic))))
                    (components model))"
    by (simp add: get_topic_words_def topic_words_loop_in_range sl)
  moreover have "\<forall>topic \<in> set (components model).
               is_top_n (nat n) topic (take (nat n) (rev (argsort L topic)))"
    using assms(2) by (auto intro: top_of_argsort)
  ultimately show ?thesis by blast
qed

theorem get_topic_words_top_n_witness:
  "(0::int) \<le> 2
   \<and> list_all (\<lambda>topic. is_argsort (argsort demo_libs topic) topic \<and> length topic \<le> length [''a'', ''b'', ''c''])
        (components \<lparr>components = [[1, 5, 3], [2, 2, 1]]\<rparr>)
   \<and> get_topic_words demo_libs \<lparr>components = [[1, 5, 3], [2, 2, 1]]\<rparr> [''a'', ''b'', ''c''] 2
       = Inr [[''b'', ''c''], [''b'', ''a'']]
   \<and> is_top_n 2 [1, 5, 3] [1, 2]"
proof -
  have a1: "argsort demo_libs [1, 5, 3] = [0, 2, 1]"
    by code_simp
  have a2: "argsort demo_libs [2, 2, 1] = [2, 0, 1]"
    by code_simp
  have s1: "is_argsort [0, 2, 1] [1, 5, 3]"
    by code_simp
  have s2: "is_argsort [2, 0, 1] [2, 2, 1]"
    by code_simp
  from get_topic_words_top_n [of 2 "\<lparr>components = [[1, 5, 3], [2, 2, 1]]\<rparr>" demo_libs
      "[''a'', ''b'', ''c'']"] a1 a2 s1 s2
  show ?thesis by simp
qed

subsection \<open>Training\<close>

lemma vectorize_and_fit_seeded:
  assumes "seeded_fit_ignores_rng L"
  shows "vectorize_and_fit L rng1 docs n debug = vectorize_and_fit L rng2 docs n debug"
proof -
  have "random_state (LatentDirichletAllocation n) \<noteq> None"
    by (simp add: LatentDirichletAllocation_def)
  with assms have "lda_fit L (LatentDirichletAllocation n) rng1 m
                   = lda_fit L (LatentDirichletAllocation n) rng2 m" for m
    unfolding seeded_fit_ignores_rng_def by blast
  then show ?thesis
    by (simp add: vectorize_and_fit_def split: sum.splits prod.splits)
qed

text \<open>
  C9. The trainer builds the topic model with the topic count it is given (25 when the
  caller gives none), the seed 42 and 10 iterations at most. With a library whose seeded
  fit does not read the process-wide generator, two runs on the same documents, whatever
  the state of that generator, return the same result, and the model is the seeded fit of
  the document-term matrix.
\<close>

theorem training_reproducible:
  assumes "seeded_fit_ignores_rng L"
  shows "LatentDirichletAllocation n_topics
           = \<lparr>n_components = n_topics, random_state = Some 42, max_iter = 10\<rparr>
         \<and> LatentDirichletAllocation n_topics_default
           = \<lparr>n_components = 25, random_state = Some 42, max_iter = 10\<rparr>
         \<and> vectorize_and_fit L rng1 docs n_topics debug = vectorize_and_fit L rng2 docs n_topics debug
         \<and> train_topic_model L rng1 df n_topics debug = train_topic_model L rng2 df n_topics debug
         \<and> (\<forall>vocab m. fit_transform L docs = Inr (vocab, m) \<and> vocab \<noteq> [] \<longrightarrow>
              snd (vectorize_and_fit L rng1 docs n_topics debug)
              = Inr (Some (CountVectorizer\<lparr>vocabulary := vocab\<rparr>),
                     Some (lda_fit L \<lparr>n_components = n_topics, random_state = Some 42, max_iter = 10\<rparr>
                             rng2 m)))"
proof -
  have "random_state (LatentDirichletAllocation n_topics) \<noteq> None"
    by (simp add: LatentDirichletAllocation_def)
  with assms have fit: "lda_fit L (LatentDirichletAllocation n_topics) rng1 m
             = lda_fit L (LatentDirichletAllocation n_topics) rng2 m" for m
    unfolding seeded_fit_ignores_rng_def by blast
  have v: "vectorize_and_fit L rng1 ds n_topics debug = vectorize_and_fit L rng2 ds n_topics debug" for ds
    by (rule vectorize_and_fit_seeded [OF assms])
  have t: "train_topic_model L rng1 df n_topics debug = train_topic_model L rng2 df n_topics debug"
    by (simp only: train_topic_model_def v)
  have m: "snd (vectorize_and_fit L rng1 docs n_topics debug)
              = Inr (Some (CountVectorizer\<lparr>vocabulary := vocab\<rparr>),
                     Some (lda_fit L \<lparr>n_components = n_topics, random_state = Some 42, max_iter = 10\<rparr>
                             rng2 m))"
    if "fit_transform L docs = Inr (vocab, m) \<and> vocab \<noteq> []" for vocab m
  proof -
    from that have "snd (vectorize_and_fit L rng1 docs n_topics debug)
        = Inr (Some (CountVectorizer\<lparr>vocabulary := vocab\<rparr>),
               Some (lda_fit L (LatentDirichletAllocation n_topics) rng1 m))"
      by (simp add: vectorize_and_fit_def Let_def)
    also have "lda_fit L (LatentDirichletAllocation n_topics) rng1 m
               = lda_fit L (LatentDirichletAllocation n_topics) rng2 m"
      by (rule fit)
    finally show ?thesis
      by (simp only: LatentDirichletAllocation_def)
  qed
  show ?thesis
  proof (intro conjI allI impI)
    show "LatentDirichletAllocation n_topics
          = \<lparr>n_components = n_topics, random_state = Some 42, max_iter = 10\<rparr>"
      by (simp add: LatentDirichletAllocation_def)
    show "LatentDirichletAllocation n_topics_default
          = \<lparr>n_components = 25, random_state = Some 42, max_iter = 10\<rparr>"
      by (simp add: LatentDirichletAllocation_def n_topics_default_def)
    show "vectorize_and_fit L rng1 docs n_topics debug = vectorize_and_fit L rng2 docs n_topics debug"
      by (rule v)
    show "train_topic_model L rng1 df n_topics debug = train_topic_model L rng2 df n_topics debug"
      by (rule t)
  next
    fix vocab m
    assume "fit_transform L docs = Inr (vocab, m) \<and> vocab \<noteq> []"
    then show "snd (vectorize_and_fit L rng1 docs n_topics debug)
              = Inr (Some (CountVectorizer\<lparr>vocabulary := vocab\<rparr>),
                     Some (lda_fit L \<lparr>n_components = n_topics, random_state = Some 42, max_iter = 10\<rparr>
                             rng2 m))"
      by (rule m)
  qed
qed

theorem training_reproducible_witness:
  "seeded_fit_ignores_rng demo_libs
   \<and> train_topic_model demo_libs 1 [''taxes'', ''tax''] 2 False
       = train_topic_model demo_libs 2 [''taxes'', ''tax''] 2 False
   \<and> train_topic_model demo_libs 1 [''taxes'', ''tax''] 2 False
       = ([], Inr (Some (CountVectorizer\<lparr>vocabulary := [(''tax'', 0)]\<rparr>),
                   Some \<lparr>components = [[1], [2]]\<rparr>))"
proof -
  have s: "seeded_fit_ignores_rng demo_libs"
    by (auto simp: seeded_fit_ignores_rng_def demo_libs_def demo_lda_fit_def)
  have p0: "preprocess_text demo_libs (Text ''taxes'') = ''tax''"
    by (simp add: preprocess_text_tokens demo_defs)
  have p1: "preprocess_text demo_libs (Text ''tax'') = ''tax''"
    by (simp add: preprocess_text_tokens demo_defs)
  have vf: "vectorize_and_fit demo_libs 2 [''tax'', ''tax''] 2 False
            = ([], Inr (Some (CountVectorizer\<lparr>vocabulary := [(''tax'', 0)]\<rparr>),
                        Some \<lparr>components = [[1], [2]]\<rparr>))"
    by code_simp
  have t2: "train_topic_model demo_libs 2 [''taxes'', ''tax''] 2 False
       = ([], Inr (Some (CountVectorizer\<lparr>vocabulary := [(''tax'', 0)]\<rparr>),
                   Some \<lparr>components = [[1], [2]]\<rparr>))"
    by (simp add: train_topic_model_def p0 p1 vf)
  from training_reproducible [OF s, of 2 1 "[''tax'', ''tax'']" False 2 "[''taxes'', ''tax'']"] s t2
  show ?thesis by simp
qed

text \<open>
  C3. Whenever training reaches the vectorizer (the collection has a document, or
  \<open>debug\<close> is off), a \<open>ValueError\<close> of the fit and an empty vocabulary each make it
  return \<open>(None, None)\<close>, never an exception, and show exactly one error: the message
  for the \<open>ValueError\<close> differs from the one for the empty vocabulary whatever the
  \<open>ValueError\<close> says. In particular, with a vectorizer that finds no term in empty
  documents, a corpus whose documents are all normalized to the empty string gives
  \<open>(None, None)\<close> and one error.
\<close>

theorem training_fails_softly:
  assumes "df \<noteq> [] \<or> \<not> debug"
  shows "(\<forall>msg. fit_transform L (map (\<lambda>x. preprocess_text L (Text x)) df) = Inl msg \<longrightarrow>
            snd (train_topic_model L rng df n_topics debug) = Inr (None, None)
            \<and> filter is_error (fst (train_topic_model L rng df n_topics debug))
              = [Error (''Error in vectorization: '' @ msg)])
         \<and> (\<forall>m. fit_transform L (map (\<lambda>x. preprocess_text L (Text x)) df) = Inr ([], m) \<longrightarrow>
            snd (train_topic_model L rng df n_topics debug) = Inr (None, None)
            \<and> filter is_error (fst (train_topic_model L rng df n_topics debug))
              = [Error ''Error: Empty vocabulary. Please check your preprocessing steps.''])
         \<and> (\<forall>msg. ''Error in vectorization: '' @ msg
                 \<noteq> ''Error: Empty vocabulary. Please check your preprocessing steps.'')
         \<and> (no_terms_in_empty_corpus L \<and> list_all (\<lambda>x. preprocess_text L (Text x) = []) df \<longrightarrow>
            snd (train_topic_model L rng df n_topics debug) = Inr (None, None)
            \<and> (\<exists>e. filter is_error (fst (train_topic_model L rng df n_topics debug)) = [Error e]))"
proof -
  let ?docs = "map (\<lambda>x. preprocess_text L (Text x)) df"
  note out = train_topic_model_outcome [OF assms, of L rng n_topics]
  have raised: "snd (train_topic_model L rng df n_topics debug) = Inr (None, None)
            \<and> filter is_error (fst (train_topic_model L rng df n_topics debug))
              = [Error (''Error in vectorization: '' @ msg)]"
    if "fit_transform L ?docs = Inl msg" for msg
    using that by (simp add: out)
  have empty: "snd (train_topic_model L rng df n_topics debug) = Inr (None, None)
            \<and> filter is_error (fst (train_topic_model L rng df n_topics debug))
              = [Error ''Error: Empty vocabulary. Please check your preprocessing steps.'']"
    if "fit_transform L ?docs = Inr ([], m)" for m
    using that by (simp add: out)
  have all_empty: "snd (train_topic_model L rng df n_topics debug) = Inr (None, None)
            \<and> (\<exists>e. filter is_error (fst (train_topic_model L rng df n_topics debug)) = [Error e])"
    if lib: "no_terms_in_empty_corpus L" and docs: "list_all (\<lambda>x. preprocess_text L (Text x) = []) df"
  proof (cases "fit_transform L ?docs")
    case (Inl msg)
    with raised show ?thesis by blast
  next
    case (Inr r)
    obtain vocab m where r: "r = (vocab, m)" by (cases r)
    from docs have "list_all (\<lambda>d. d = []) ?docs"
      by (simp add: list_all_iff)
    with lib Inr r have "vocab = []"
      unfolding no_terms_in_empty_corpus_def by blast
    with Inr r empty show ?thesis by blast
  qed
  from raised empty all_empty show ?thesis by simp
qed

theorem training_fails_softly_witness:
  "[''The is'', ''(00:00)''] \<noteq> []
   \<and> fit_transform demo_libs (map (\<lambda>x. preprocess_text demo_libs (Text x)) [''The is'', ''(00:00)''])
       = Inl ''empty vocabulary; perhaps the documents only contain stop words''
   \<and> snd (train_topic_model demo_libs 0 [''The is'', ''(00:00)''] 25 True) = Inr (None, None)
   \<and> filter is_error (fst (train_topic_model demo_libs 0 [''The is'', ''(00:00)''] 25 True))
       = [Error ''Error in vectorization: empty vocabulary; perhaps the documents only contain stop words'']
   \<and> snd (train_topic_model (demo_libs\<lparr>fit_transform := (\<lambda>docs. Inr ([], map (\<lambda>d. []) docs))\<rparr>) 0
             [''The is'', ''(00:00)''] 25 True) = Inr (None, None)
   \<and> filter is_error
         (fst (train_topic_model (demo_libs\<lparr>fit_transform := (\<lambda>docs. Inr ([], map (\<lambda>d. []) docs))\<rparr>) 0
                 [''The is'', ''(00:00)''] 25 True))
       = [Error ''Error: Empty vocabulary. Please check your preprocessing steps.'']"
proof -
  let ?quiet = "demo_libs\<lparr>fit_transform := (\<lambda>docs. Inr ([], map (\<lambda>d. []) docs))\<rparr>"
  have ne: "[''The is'', ''(00:00)''] \<noteq> [] \<or> \<not> True"
    by simp
  have p0: "preprocess_text demo_libs (Text ''The is'') = []"
    by (simp add: preprocess_text_tokens demo_defs)
  have p1: "preprocess_text demo_libs (Text ''(00:00)'') = []"
    by (simp add: preprocess_text_tokens demo_defs)
  have ft: "fit_transform demo_libs [[], []]
            = Inl ''empty vocabulary; perhaps the documents only contain stop words''"
    by code_simp
  have fq: "fit_transform ?quiet docs = Inr ([], map (\<lambda>d. []) docs)" for docs
    by simp
  from training_fails_softly [OF ne, of demo_libs 0 25] p0 p1 ft
    training_fails_softly [OF ne, of ?quiet 0 25] fq
  show ?thesis by simp
qed

text \<open>
  The one call of \<open>train_topic_model\<close>, at line 172, comes after a transcript has been
  selected, so its collection has a document. On a collection without documents and
  with \<open>debug\<close> on, the preview of line 61 raises before the vectorizer is reached.
\<close>

lemma train_debug_preview_empty:
  "train_topic_model L rng [] n_topics True = ([Write ''Number of documents: 0''], Inl IndexError)"
proof -
  have "show_nat 0 = ''0''"
    by (simp add: show_nat.simps [of 0] digit_chars_def)
  then show ?thesis
    by (simp add: train_topic_model_def)
qed

subsection \<open>The vectorizer's frozen vocabulary\<close>

lemma count_row_unseen:
  "count_row vocab terms = count_row vocab [t \<leftarrow> terms. t \<in> fst ` set vocab]"
proof -
  have "[t \<leftarrow> terms. map_of vocab t = Some j]
        = [t \<leftarrow> [t \<leftarrow> terms. t \<in> fst ` set vocab]. map_of vocab t = Some j]" for j
    by (induction terms) (auto simp: map_of_eq_None_iff [symmetric] simp del: map_of_eq_None_iff)
  then show ?thesis by (simp add: count_row_def)
qed

lemma count_row_all_unseen:
  assumes "\<forall>t \<in> set terms. t \<notin> fst ` set vocab"
  shows "count_row vocab terms = replicate (length vocab) 0"
proof -
  from assms have "[t \<leftarrow> terms. t \<in> fst ` set vocab] = []"
    by (induction terms) auto
  then have "count_row vocab terms = count_row vocab []"
    by (subst count_row_unseen) simp
  also have "\<dots> = replicate (length vocab) 0"
    by (simp add: count_row_def map_replicate_const)
  finally show ?thesis .
qed

text \<open>
  C4. As stated the claim fails: the vocabulary holds bigrams too. Fitted to three
  documents that all hold \<open>tax\<close> and \<open>cut\<close>, it keeps neither word (each is in more
  than 95% of the documents) and keeps the bigram \<open>tax cut\<close>; the document \<open>tax cut\<close>,
  whose two tokens are out of the vocabulary, then has the count 1.
\<close>

theorem unseen_tokens_seen_bigram:
  "\<not> (\<forall>stop docs doc.
        (\<forall>w \<in> set (words doc). w \<notin> fst ` set (vocabulary (fst (fit stop CountVectorizer docs)))) \<longrightarrow>
        snd (transform stop (fst (fit stop CountVectorizer docs)) [doc])
        = [replicate (length (vocabulary (fst (fit stop CountVectorizer docs)))) 0])"
proof
  assume a: "\<forall>stop docs doc.
        (\<forall>w \<in> set (words doc). w \<notin> fst ` set (vocabulary (fst (fit stop CountVectorizer docs)))) \<longrightarrow>
        snd (transform stop (fst (fit stop CountVectorizer docs)) [doc])
        = [replicate (length (vocabulary (fst (fit stop CountVectorizer docs)))) 0]"
  have v: "fst (fit [] CountVectorizer [''tax cut'', ''tax cut'', ''cut tax''])
           = CountVectorizer\<lparr>vocabulary := [(''tax cut'', 0)]\<rparr>"
    by code_simp
  have w: "words ''tax cut'' = [''tax'', ''cut'']"
    by code_simp
  have r: "snd (transform [] (CountVectorizer\<lparr>vocabulary := [(''tax cut'', 0)]\<rparr>) [''tax cut'']) = [[1]]"
    by code_simp
  have h: "\<forall>w \<in> set (words ''tax cut'').
             w \<notin> fst ` set (vocabulary (fst (fit [] CountVectorizer [''tax cut'', ''tax cut'', ''cut tax''])))"
    unfolding v w by simp
  from a h have "snd (transform [] (fst (fit [] CountVectorizer [''tax cut'', ''tax cut'', ''cut tax'']))
                   [''tax cut''])
        = [replicate (length (vocabulary (fst (fit [] CountVectorizer
             [''tax cut'', ''tax cut'', ''cut tax''])))) 0]"
    by blast
  then have "snd (transform [] (CountVectorizer\<lparr>vocabulary := [(''tax cut'', 0)]\<rparr>) [''tax cut''])
        = [[0]]"
    unfolding v by simp
  with r show False by simp
qed

text \<open>
  C4, amended. For the \<open>transform\<close> of the specification: a document none of whose
  terms (its tokens after the stopword filter and the bigrams of adjacent tokens) is a
  key of the vocabulary gives a single row of zeros, one per vocabulary entry, and leaves
  the vectorizer as it was; and in every row a term that is no key of the vocabulary
  adds nothing to any count.
\<close>

theorem transform_out_of_vocabulary:
  assumes "\<forall>t \<in> set (analyze stop doc). t \<notin> fst ` set (vocabulary v)"
  shows "transform stop v [doc] = (v, [replicate (length (vocabulary v)) 0])
         \<and> snd (transform stop v docs)
           = map (\<lambda>d. count_row (vocabulary v) [t \<leftarrow> analyze stop d. t \<in> fst ` set (vocabulary v)]) docs"
proof -
  have "snd (transform stop v docs)
        = map (\<lambda>d. count_row (vocabulary v) [t \<leftarrow> analyze stop d. t \<in> fst ` set (vocabulary v)]) docs"
    unfolding transform_def snd_conv by (subst count_row_unseen) (rule refl)
  then show ?thesis
    by (simp add: transform_def count_row_all_unseen [OF assms])
qed

theorem transform_out_of_vocabulary_witness:
  "analyze [''the''] ''cut the taxes'' = [''cut'', ''taxes'', ''cut taxes'']
   \<and> list_all (\<lambda>t. t \<notin> fst ` set (vocabulary (fst (fit [''the''] CountVectorizer
                  [''tax cut'', ''the tax cut'', ''cut tax'', ''tax cut tax'']))))
        (analyze [''the''] ''cut the taxes'')
   \<and> fst (fit [''the''] CountVectorizer [''tax cut'', ''the tax cut'', ''cut tax'', ''tax cut tax''])
       = CountVectorizer\<lparr>vocabulary := [(''tax cut'', 0), (''cut tax'', 1)]\<rparr>
   \<and> transform [''the''] (CountVectorizer\<lparr>vocabulary := [(''tax cut'', 0), (''cut tax'', 1)]\<rparr>)
         [''cut the taxes'']
       = (CountVectorizer\<lparr>vocabulary := [(''tax cut'', 0), (''cut tax'', 1)]\<rparr>, [[0, 0]])
   \<and> snd (transform [''the''] (CountVectorizer\<lparr>vocabulary := [(''tax cut'', 0), (''cut tax'', 1)]\<rparr>)
         [''tax the cut tax zzz''])
       = [[1, 1]]"
proof -
  have f: "fst (fit [''the''] CountVectorizer [''tax cut'', ''the tax cut'', ''cut tax'', ''tax cut tax''])
       = CountVectorizer\<lparr>vocabulary := [(''tax cut'', 0), (''cut tax'', 1)]\<rparr>"
    by code_simp
  have a: "analyze [''the''] ''cut the taxes'' = [''cut'', ''taxes'', ''cut taxes'']"
    by code_simp
  have b: "snd (transform [''the''] (CountVectorizer\<lparr>vocabulary := [(''tax cut'', 0), (''cut tax'', 1)]\<rparr>)
         [''tax the cut tax zzz''])
       = [[1, 1]]"
    by code_simp
  from transform_out_of_vocabulary [of "[''the'']" "''cut the taxes''"
      "CountVectorizer\<lparr>vocabulary := [(''tax cut'', 0), (''cut tax'', 1)]\<rparr>" "[]"] f a b
  show ?thesis by (simp add: CountVectorizer_def)
qed

end
